theory Spec2Isabelle
  imports Main
begin

section \<open>Membership governance: the project-members router\<close>

text \<open>
  The router of \<^verbatim>\<open>apps/portal/src/server/api/routers/project-members.ts\<close> guards
  every membership mutation by reading the membership table and the request
  context, and only then calls the identity provider. A thrown error is the
  left summand of the result; the tables and the provider's call log are an
  explicit world that each procedure takes and returns.
\<close>

subsection \<open>Errors\<close>

datatype trpc_code = BAD_REQUEST | FORBIDDEN | NOT_FOUND

text \<open>\<open>TRPCError\<close> is \<^verbatim>\<open>new TRPCError({code, message})\<close>; \<open>Error\<close> is a plain
  \<^verbatim>\<open>new Error(message)\<close>, which carries no tRPC code.\<close>

datatype error = TRPCError trpc_code string | Error string

fun code_of :: "error + 'a \<Rightarrow> trpc_code option" where
  "code_of (Inl (TRPCError c m)) = Some c"
| "code_of (Inl (Error m)) = None"
| "code_of (Inr v) = None"

subsection \<open>Tables\<close>

text \<open>A row of \<^verbatim>\<open>projectUser\<close>. The role column is a string.\<close>

record projectUser_row =
  pu_projectId :: string
  pu_userId :: string
  pu_role :: string

record user_row =
  user_id :: string
  user_name :: "string option"
  user_email :: "string option"
  user_image :: "string option"

record invitation_row =
  inv_id :: string
  inv_projectId :: string
  inv_email :: string
  inv_role :: "string option"
  inv_status :: string
  inv_inviterId :: string

text \<open>The input role of invite, changeRole and resendInvitation is
  \<^verbatim>\<open>z.enum(["admin", "member", "owner"])\<close>: input validation admits no other
  string.\<close>

datatype role_enum = Admin | Member | Owner

fun role_str :: "role_enum \<Rightarrow> string" where
  "role_str Admin = ''admin''"
| "role_str Member = ''member''"
| "role_str Owner = ''owner''"

text \<open>The calls the router makes on the identity provider (\<^verbatim>\<open>auth.api\<close>), with the
  fields of their bodies.\<close>

datatype auth_call =
    CreateInvitation "string option" string string bool
  | UpdateMemberRole string string string
  | RemoveMember string string
  | CancelInvitation string
  | AcceptInvitation string

record world =
  projectUser :: "projectUser_row list"
  users :: "user_row list"
  invitation :: "invitation_row list"
  authCalls :: "auth_call list"

text \<open>The request context: \<^verbatim>\<open>ctx.activeProjectId\<close>, \<^verbatim>\<open>ctx.userId\<close> and
  \<^verbatim>\<open>ctx.projectUserRole\<close>, each possibly absent.\<close>

record ctx =
  activeProjectId :: "string option"
  userId :: "string option"
  projectUserRole :: "string option"

text \<open>JavaScript truthiness of an optional string: \<^verbatim>\<open>!x\<close> holds for an absent
  value and for the empty string.\<close>

fun truthy :: "string option \<Rightarrow> bool" where
  "truthy None = False"
| "truthy (Some s) = (s \<noteq> [])"

subsection \<open>Counting members by role\<close>

record counts =
  total :: nat
  owners :: nat
  admins :: nat

definition getProjectMemberCounts :: "projectUser_row list \<Rightarrow> string \<Rightarrow> counts" where
  "getProjectMemberCounts db projectId =
     \<lparr> total = length (filter (\<lambda>r. pu_projectId r = projectId) db),
       owners = length (filter (\<lambda>r. pu_projectId r = projectId \<and> pu_role r = ''owner'') db),
       admins = length (filter (\<lambda>r. pu_projectId r = projectId \<and> pu_role r = ''admin'') db) \<rparr>"

text \<open>\<^verbatim>\<open>const [m] = await db.select().from(projectUser).where(and(...))\<close>: the first
  row of the project for the user, if there is one.\<close>

definition selectMembership ::
  "projectUser_row list \<Rightarrow> string \<Rightarrow> string \<Rightarrow> projectUser_row option" where
  "selectMembership db projectId uid =
     (case filter (\<lambda>r. pu_projectId r = projectId \<and> pu_userId r = uid) db of
        [] \<Rightarrow> None
      | r # rs \<Rightarrow> Some r)"

subsection \<open>The two validators\<close>

definition validateRoleChange ::
  "projectUser_row list \<Rightarrow> string \<Rightarrow> string \<Rightarrow> string \<Rightarrow> string \<Rightarrow> error + unit" where
  "validateRoleChange db projectId uid newRole currentUserId =
     (case selectMembership db projectId currentUserId of
        None \<Rightarrow> Inl (TRPCError FORBIDDEN ''You are not a member of this project'')
      | Some currentUserMembership \<Rightarrow>
          if pu_role currentUserMembership = ''member''
          then Inl (TRPCError FORBIDDEN ''You don't have permission to change roles'')
          else
            (case selectMembership db projectId uid of
               None \<Rightarrow> Inl (TRPCError NOT_FOUND ''User is not a member of this project'')
             | Some targetUserMembership \<Rightarrow>
                 let cnt = getProjectMemberCounts db projectId in
                 if pu_role targetUserMembership = ''owner'' \<and> owners cnt = 1
                    \<and> newRole \<noteq> ''owner''
                 then Inl (TRPCError BAD_REQUEST
                   ''Cannot demote the last owner. Promote another member to owner first.'')
                 else if pu_role targetUserMembership = ''admin'' \<and> admins cnt = 1
                    \<and> owners cnt = 0 \<and> newRole = ''member''
                 then Inl (TRPCError BAD_REQUEST
                   ''Cannot demote the last admin when there are no owners.'')
                 else if newRole = ''owner'' \<and> pu_role currentUserMembership \<noteq> ''owner''
                 then Inl (TRPCError FORBIDDEN
                   ''Only owners can promote members to owner role'')
                 else Inr ()))"

definition validateMemberRemoval ::
  "projectUser_row list \<Rightarrow> string \<Rightarrow> string \<Rightarrow> string \<Rightarrow> error + unit" where
  "validateMemberRemoval db projectId userIdToRemove currentUserId =
     (case selectMembership db projectId currentUserId of
        None \<Rightarrow> Inl (TRPCError FORBIDDEN ''You are not a member of this project'')
      | Some currentUserMembership \<Rightarrow>
          if pu_role currentUserMembership = ''member''
          then Inl (TRPCError FORBIDDEN ''You don't have permission to remove members'')
          else
            (case selectMembership db projectId userIdToRemove of
               None \<Rightarrow> Inl (TRPCError NOT_FOUND ''User is not a member of this project'')
             | Some targetUserMembership \<Rightarrow>
                 let cnt = getProjectMemberCounts db projectId in
                 if total cnt = 1
                 then Inl (TRPCError BAD_REQUEST
                   ''Cannot remove the last member of the project'')
                 else if pu_role targetUserMembership = ''owner'' \<and> owners cnt = 1
                 then Inl (TRPCError BAD_REQUEST
                   ''Cannot remove the last owner. Promote another member to owner first.'')
                 else if pu_role targetUserMembership = ''admin'' \<and> admins cnt = 1
                    \<and> owners cnt = 0
                 then Inl (TRPCError BAD_REQUEST
                   ''Cannot remove the last admin when there are no owners.'')
                 else Inr ()))"

subsection \<open>The identity provider\<close>

text \<open>
  Modelled from the spec: the identity provider behind \<^verbatim>\<open>auth.api\<close> is an external
  collaborator, not code of the repository. The spec (section 6) says it
  "creates/cancels/resends invitations, updates/removes membership role by
  organization+member id". Every call is recorded in \<open>authCalls\<close>;
  \<open>UpdateMemberRole\<close> sets the role of the rows of that organization and member,
  \<open>RemoveMember\<close> deletes them. What the provider writes for an invitation is
  left to the provider: only the call is recorded. The provider is taken not
  to throw.
\<close>

fun auth_api :: "auth_call \<Rightarrow> world \<Rightarrow> world" where
  "auth_api (UpdateMemberRole org memberId r) w =
     w\<lparr> projectUser :=
          map (\<lambda>row. if pu_projectId row = org \<and> pu_userId row = memberId
                      then row\<lparr> pu_role := r \<rparr> else row) (projectUser w),
        authCalls := authCalls w @ [UpdateMemberRole org memberId r] \<rparr>"
| "auth_api (RemoveMember org memberIdOrEmail) w =
     w\<lparr> projectUser :=
          filter (\<lambda>row. \<not> (pu_projectId row = org \<and> pu_userId row = memberIdOrEmail))
            (projectUser w),
        authCalls := authCalls w @ [RemoveMember org memberIdOrEmail] \<rparr>"
| "auth_api c w = w\<lparr> authCalls := authCalls w @ [c] \<rparr>"

subsection \<open>The procedures of the router\<close>

text \<open>What a mutation returns: \<^verbatim>\<open>{ success: true }\<close>, or \<^verbatim>\<open>{ id: invitation }\<close> with
  the provider's answer to the recorded call.\<close>

datatype response = Success | Id auth_call

record member_view =
  mv_id :: string
  mv_name :: "string option"
  mv_email :: "string option"
  mv_avatar :: "string option"
  mv_role :: string
  mv_isCurrentUser :: bool

record members_result =
  members :: "member_view list"
  mr_counts :: counts
  currentUserId :: "string option"
  currentUserRole :: "string option"

record invitation_view =
  iv_id :: string
  iv_email :: string
  iv_role :: string
  iv_invitedBy :: string
  iv_status :: string

text \<open>\<open>listMembers\<close>: the rows of the project, inner-joined with the user
  table. The formatted \<^verbatim>\<open>joinedAt\<close> date of each row is display only and is left
  out.\<close>

definition listMembers :: "ctx \<Rightarrow> world \<Rightarrow> (error + members_result) \<times> world" where
  "listMembers c w =
     (if \<not> truthy (activeProjectId c)
      then (Inl (TRPCError BAD_REQUEST ''No active project''), w)
      else
        (case activeProjectId c of
           None \<Rightarrow> (Inl (TRPCError BAD_REQUEST ''No active project''), w)
         | Some p \<Rightarrow>
             (Inr \<lparr> members =
                      concat (map (\<lambda>row.
                        map (\<lambda>u. \<lparr> mv_id = user_id u, mv_name = user_name u,
                                    mv_email = user_email u, mv_avatar = user_image u,
                                    mv_role = pu_role row,
                                    mv_isCurrentUser = (Some (user_id u) = userId c) \<rparr>)
                          (filter (\<lambda>u. pu_userId row = user_id u) (users w)))
                        (filter (\<lambda>row. pu_projectId row = p) (projectUser w))),
                    mr_counts = getProjectMemberCounts (projectUser w) p,
                    currentUserId = userId c,
                    currentUserRole = projectUserRole c \<rparr>, w)))"

text \<open>\<open>listInvitations\<close>: the pending invitations of the project, inner-joined
  with the inviter. An absent project throws a plain \<^verbatim>\<open>Error\<close>. The formatted
  dates are left out.\<close>

definition listInvitations :: "ctx \<Rightarrow> world \<Rightarrow> (error + invitation_view list) \<times> world" where
  "listInvitations c w =
     (if \<not> truthy (activeProjectId c)
      then (Inl (Error ''No active project''), w)
      else
        (case activeProjectId c of
           None \<Rightarrow> (Inl (Error ''No active project''), w)
         | Some p \<Rightarrow>
             (Inr (concat (map (\<lambda>i.
                     map (\<lambda>u. \<lparr> iv_id = inv_id i, iv_email = inv_email i,
                                 iv_role = (case inv_role i of None \<Rightarrow> ''member'' | Some r \<Rightarrow> r),
                                 iv_invitedBy =
                                   (case user_name u of
                                      Some n \<Rightarrow> n
                                    | None \<Rightarrow>
                                        (case user_email u of
                                           Some e \<Rightarrow> e
                                         | None \<Rightarrow> ''System'')),
                                 iv_status = inv_status i \<rparr>)
                       (filter (\<lambda>u. user_id u = inv_inviterId i) (users w)))
                     (filter (\<lambda>i. inv_projectId i = p \<and> inv_status i = ''pending'')
                        (invitation w)))), w)))"

text \<open>The input schema of \<open>invite\<close> checks the email with \<^verbatim>\<open>z.string().email()\<close>
  before the handler runs: a rejected input is a BAD_REQUEST that carries the
  validator's message, and the handler is not entered. The validator is a
  library function that is not among the sources, so it is a parameter:
  \<open>zodEmail s\<close> is \<open>None\<close> when \<open>s\<close> passes and the message otherwise. Every other
  input of the router is a plain string (\<^verbatim>\<open>z.string()\<close>, also the email of
  \<open>resendInvitation\<close>) or the role enumeration.\<close>

definition invite ::
  "(string \<Rightarrow> string option) \<Rightarrow> ctx \<Rightarrow> string \<Rightarrow> role_enum \<Rightarrow> world
     \<Rightarrow> (error + response) \<times> world" where
  "invite zodEmail c email r w =
     (case zodEmail email of
        Some msg \<Rightarrow> (Inl (TRPCError BAD_REQUEST msg), w)
      | None \<Rightarrow>
          if \<not> truthy (activeProjectId c) \<or> \<not> truthy (userId c)
          then (Inl (TRPCError BAD_REQUEST ''No active project or user''), w)
          else if projectUserRole c = Some ''member''
          then (Inl (TRPCError FORBIDDEN
            ''You don't have permission to invite members. Only owners and admins can invite.''), w)
          else if projectUserRole c = Some ''admin'' \<and> role_str r = ''owner''
          then (Inl (TRPCError FORBIDDEN ''Only owners can invite other owners''), w)
          else
            (let call = CreateInvitation (activeProjectId c) email (role_str r) False
             in (Inr (Id call), auth_api call w)))"

definition changeRole :: "ctx \<Rightarrow> string \<Rightarrow> role_enum \<Rightarrow> world \<Rightarrow> (error + response) \<times> world" where
  "changeRole c uid r w =
     (if \<not> truthy (activeProjectId c) \<or> \<not> truthy (userId c)
      then (Inl (TRPCError BAD_REQUEST ''No active project or user''), w)
      else
        (case (activeProjectId c, userId c) of
           (Some p, Some cu) \<Rightarrow>
             (case validateRoleChange (projectUser w) p uid (role_str r) cu of
                Inl e \<Rightarrow> (Inl e, w)
              | Inr u \<Rightarrow> (Inr Success, auth_api (UpdateMemberRole p uid (role_str r)) w))
         | other \<Rightarrow> (Inl (TRPCError BAD_REQUEST ''No active project or user''), w)))"

definition remove_member :: "ctx \<Rightarrow> string \<Rightarrow> world \<Rightarrow> (error + response) \<times> world" where
  "remove_member c uid w =
     (if \<not> truthy (activeProjectId c) \<or> \<not> truthy (userId c)
      then (Inl (TRPCError BAD_REQUEST ''No active project or user''), w)
      else
        (case (activeProjectId c, userId c) of
           (Some p, Some cu) \<Rightarrow>
             (case validateMemberRemoval (projectUser w) p uid cu of
                Inl e \<Rightarrow> (Inl e, w)
              | Inr u \<Rightarrow> (Inr Success, auth_api (RemoveMember p uid) w))
         | other \<Rightarrow> (Inl (TRPCError BAD_REQUEST ''No active project or user''), w)))"

definition cancelInvitation :: "ctx \<Rightarrow> string \<Rightarrow> world \<Rightarrow> (error + response) \<times> world" where
  "cancelInvitation c iid w =
     (if projectUserRole c = Some ''member''
      then (Inl (TRPCError FORBIDDEN
        ''You don't have permission to cancel invitations. Only owners and admins can cancel invitations.''), w)
      else
        (let w1 = auth_api (CancelInvitation iid) w
         in (Inr Success,
             w1\<lparr> invitation := filter (\<lambda>i. inv_id i \<noteq> iid) (invitation w1) \<rparr>)))"

definition resendInvitation ::
  "ctx \<Rightarrow> string \<Rightarrow> role_enum \<Rightarrow> world \<Rightarrow> (error + response) \<times> world" where
  "resendInvitation c email r w =
     (if projectUserRole c = Some ''member''
      then (Inl (TRPCError FORBIDDEN
        ''You don't have permission to resend invitations. Only owners and admins can resend invitations.''), w)
      else if projectUserRole c = Some ''admin'' \<and> role_str r = ''owner''
      then (Inl (TRPCError FORBIDDEN ''Only owners can invite other owners''), w)
      else
        (let call = CreateInvitation (activeProjectId c) email (role_str r) True
         in (Inr (Id call), auth_api call w)))"

definition acceptInvitation :: "ctx \<Rightarrow> string \<Rightarrow> world \<Rightarrow> (error + response) \<times> world" where
  "acceptInvitation c iid w = (Inr Success, auth_api (AcceptInvitation iid) w)"

section \<open>Program setup progress\<close>

text \<open>The aggregates of \<^verbatim>\<open>programs/[id]/page.tsx\<close> over
  \<^verbatim>\<open>program.setup.steps\<close>.\<close>

record step =
  step_id :: string
  step_title :: string
  isRequired :: bool
  isComplete :: bool

definition pendingSteps :: "step list \<Rightarrow> nat" where
  "pendingSteps steps = length (filter (\<lambda>s. isRequired s \<and> \<not> isComplete s) steps)"

definition allRequiredComplete :: "step list \<Rightarrow> bool" where
  "allRequiredComplete steps = list_all (\<lambda>s. isComplete s) (filter (\<lambda>s. isRequired s) steps)"

text \<open>
  Modelled from the spec: \<^verbatim>\<open>canProceedToStep\<close> is imported from \<^verbatim>\<open>@/lib/program\<close>,
  which is not among the sources. The spec (section 4.2) says: "navigating to
  a step is permitted only if all required steps preceding it are complete
  (canProceedToStep gate) -- a pure function of the step graph and completion
  flags." The steps preceding a step are those before its first occurrence in
  the ordered list.
\<close>

definition preceding :: "string \<Rightarrow> step list \<Rightarrow> step list" where
  "preceding stepId steps = takeWhile (\<lambda>s. step_id s \<noteq> stepId) steps"

definition canProceedToStep :: "string \<Rightarrow> step list \<Rightarrow> bool" where
  "canProceedToStep stepId steps =
     list_all (\<lambda>s. isComplete s) (filter (\<lambda>s. isRequired s) (preceding stepId steps))"

section \<open>Reward step submission\<close>

text \<open>The values of the form of \<^verbatim>\<open>RewardStep.tsx\<close>. Numbers are only carried,
  never computed with, so their type is a parameter.\<close>

record 'n referrerReward_form =
  rr_enabled :: bool
  rr_valueType :: string
  rr_value :: 'n
  rr_currency :: string

record 'n refereeReward_form =
  re_enabled :: bool
  re_valueType :: string
  re_value :: 'n
  re_currency :: string
  re_minPurchaseAmount :: "'n option"
  re_validityDays :: 'n

record 'n form_values =
  referrerReward :: "'n referrerReward_form"
  refereeReward :: "'n refereeReward_form"

text \<open>The state of the form after \<^verbatim>\<open>form.validateAllFields("submit")\<close>. The
  validating schema \<^verbatim>\<open>programTemplateRewardStepSchemaV2\<close> is not among the
  sources, so the two flags it decides are part of the input.\<close>

record 'n form_state =
  isValidating :: bool
  isValid :: bool
  form_vals :: "'n form_values"

record 'n referrer_config =
  rc_type :: string
  rc_valueType :: string
  rc_value :: 'n
  rc_currency :: string

record 'n referee_config =
  fc_type :: string
  fc_valueType :: string
  fc_value :: 'n
  fc_currency :: string
  fc_minPurchaseAmount :: "'n option"
  fc_validityDays :: 'n

record 'n rewardConfig =
  referrer :: "'n referrer_config"
  referee :: "'n referee_config"

text \<open>\<open>submitForm\<close>: \<open>Inl\<close> is the thrown error, \<open>Inr None\<close> is \<^verbatim>\<open>undefined\<close>.\<close>

definition submitForm :: "'n form_state \<Rightarrow> error + 'n rewardConfig option" where
  "submitForm st =
     (if isValidating st \<or> \<not> isValid st
      then Inl (Error ''Reward configuration is invalid. Please check the fields.'')
      else
        (let v = form_vals st;
             cfg = \<lparr> referrer =
                       \<lparr> rc_type = ''cash'',
                         rc_valueType = rr_valueType (referrerReward v),
                         rc_value = rr_value (referrerReward v),
                         rc_currency = rr_currency (referrerReward v) \<rparr>,
                     referee =
                       \<lparr> fc_type = ''discount'',
                         fc_valueType = re_valueType (refereeReward v),
                         fc_value = re_value (refereeReward v),
                         fc_currency = re_currency (refereeReward v),
                         fc_minPurchaseAmount = re_minPurchaseAmount (refereeReward v),
                         fc_validityDays = re_validityDays (refereeReward v) \<rparr> \<rparr>
         in Inr (if rr_enabled (referrerReward v) \<or> re_enabled (refereeReward v)
                 then Some cfg else None)))"

section \<open>Example data\<close>

text \<open>A project \<open>p1\<close> whose only owner is alice, with bob as a plain member; and
  a project \<open>p2\<close> without owner, whose only admin is carol, with dave as a plain
  member. The projects \<open>p3\<close> and \<open>p4\<close> have a single member each.\<close>

definition row :: "string \<Rightarrow> string \<Rightarrow> string \<Rightarrow> projectUser_row" where
  "row p u r = \<lparr> pu_projectId = p, pu_userId = u, pu_role = r \<rparr>"

definition ex_world :: world where
  "ex_world =
     \<lparr> projectUser = [row ''p1'' ''alice'' ''owner'', row ''p1'' ''bob'' ''member'',
                       row ''p2'' ''carol'' ''admin'', row ''p2'' ''dave'' ''member'',
                       row ''p3'' ''erin'' ''member'', row ''p4'' ''frank'' ''owner''],
       users = [], invitation = [], authCalls = [] \<rparr>"

text \<open>The project \<open>p2\<close> once dave is an admin too.\<close>

definition ex_world_two_admins :: world where
  "ex_world_two_admins =
     \<lparr> projectUser = [row ''p2'' ''carol'' ''admin'', row ''p2'' ''dave'' ''admin''],
       users = [], invitation = [], authCalls = [] \<rparr>"

definition ex_ctx :: "string \<Rightarrow> string \<Rightarrow> string \<Rightarrow> ctx" where
  "ex_ctx p u r = \<lparr> activeProjectId = Some p, userId = Some u, projectUserRole = Some r \<rparr>"

text \<open>The request of a signed-in user who has no active project, and so no role
  in one.\<close>

definition no_project_ctx :: ctx where
  "no_project_ctx =
     \<lparr> activeProjectId = None, userId = Some ''zoe'', projectUserRole = None \<rparr>"

text \<open>An email check for the examples. It rejects every string without an at
  sign, as \<^verbatim>\<open>z.string().email()\<close> does, and it is only applied to
  \<open>zoe@example.com\<close>, which the schema accepts, and to \<open>not-an-email\<close>, which the
  schema rejects.\<close>

definition ex_zodEmail :: "string \<Rightarrow> string option" where
  "ex_zodEmail s = (if CHR ''@'' \<in> set s then None else Some ''Invalid email'')"

definition ex_steps :: "step list" where
  "ex_steps =
     [\<lparr> step_id = ''design'', step_title = ''Design'', isRequired = True, isComplete = True \<rparr>,
      \<lparr> step_id = ''rewards'', step_title = ''Rewards'', isRequired = True, isComplete = False \<rparr>,
      \<lparr> step_id = ''notifications'', step_title = ''Notifications'', isRequired = False,
        isComplete = False \<rparr>,
      \<lparr> step_id = ''installation'', step_title = ''Installation'', isRequired = True,
        isComplete = False \<rparr>]"

definition ex_form :: "bool \<Rightarrow> bool \<Rightarrow> nat form_state" where
  "ex_form a b =
     \<lparr> isValidating = False, isValid = True,
       form_vals =
         \<lparr> referrerReward =
             \<lparr> rr_enabled = a, rr_valueType = ''fixed'', rr_value = 10, rr_currency = ''USD'' \<rparr>,
           refereeReward =
             \<lparr> re_enabled = b, re_valueType = ''percentage'', re_value = 20,
               re_currency = ''USD'', re_minPurchaseAmount = Some 50,
               re_validityDays = 30 \<rparr> \<rparr> \<rparr>"

section \<open>Facts about the tables\<close>

lemma selectMembership_SomeD:
  "selectMembership db p u = Some m \<Longrightarrow> m \<in> set db \<and> pu_projectId m = p \<and> pu_userId m = u"
proof -
  assume a: "selectMembership db p u = Some m"
  then obtain rs where "filter (\<lambda>r. pu_projectId r = p \<and> pu_userId r = u) db = m # rs"
    by (auto simp: selectMembership_def split: list.splits)
  then have "m \<in> set (filter (\<lambda>r. pu_projectId r = p \<and> pu_userId r = u) db)"
    by simp
  then show ?thesis by simp
qed

lemma filter_length_pos: "x \<in> set xs \<Longrightarrow> P x \<Longrightarrow> 0 < length (filter P xs)"
  by (auto simp: filter_empty_conv)

lemma filter_length_disj:
  "(\<And>x. \<not> (P x \<and> Q x)) \<Longrightarrow>
   length (filter (\<lambda>x. P x \<or> Q x) xs) = length (filter P xs) + length (filter Q xs)"
  by (induction xs) auto

lemma filter_length_mono:
  "(\<And>x. P x \<Longrightarrow> Q x) \<Longrightarrow> length (filter P xs) \<le> length (filter Q xs)"
  by (induction xs) auto

text \<open>Owners and admins are counted among the members of the project.\<close>

lemma owners_admins_le_total:
  "owners (getProjectMemberCounts db p) + admins (getProjectMemberCounts db p)
     \<le> total (getProjectMemberCounts db p)"
proof -
  have "length (filter (\<lambda>r. pu_projectId r = p \<and> pu_role r = ''owner'') db)
        + length (filter (\<lambda>r. pu_projectId r = p \<and> pu_role r = ''admin'') db)
      = length (filter (\<lambda>r. (pu_projectId r = p \<and> pu_role r = ''owner'')
                           \<or> (pu_projectId r = p \<and> pu_role r = ''admin'')) db)"
    by (rule filter_length_disj [symmetric]) auto
  also have "\<dots> \<le> length (filter (\<lambda>r. pu_projectId r = p) db)"
    by (rule filter_length_mono) auto
  finally show ?thesis by (simp add: getProjectMemberCounts_def)
qed

lemma admins_pos:
  "selectMembership db p a = Some t \<Longrightarrow> pu_role t = ''admin'' \<Longrightarrow>
   0 < admins (getProjectMemberCounts db p)"
proof -
  assume s: "selectMembership db p a = Some t" and r: "pu_role t = ''admin''"
  from s r have "t \<in> set db" and "pu_projectId t = p \<and> pu_role t = ''admin''"
    by (auto dest: selectMembership_SomeD)
  then have "0 < length (filter (\<lambda>r. pu_projectId r = p \<and> pu_role r = ''admin'') db)"
    by (rule filter_length_pos [of t db "\<lambda>r. pu_projectId r = p \<and> pu_role r = ''admin''"])
  then show ?thesis by (simp add: getProjectMemberCounts_def)
qed

text \<open>A row update that keeps project and user keeps what a lookup finds, up
  to the update.\<close>

lemma selectMembership_map:
  assumes "\<And>row. pu_projectId (f row) = pu_projectId row"
    and "\<And>row. pu_userId (f row) = pu_userId row"
  shows "selectMembership (map f db) p u = map_option f (selectMembership db p u)"
proof -
  have "(\<lambda>r. pu_projectId r = p \<and> pu_userId r = u) \<circ> f
        = (\<lambda>r. pu_projectId r = p \<and> pu_userId r = u)"
    by (simp add: fun_eq_iff assms)
  then show ?thesis
    by (simp add: selectMembership_def filter_map split: list.splits)
qed

lemma selectMembership_after_update:
  "selectMembership (projectUser (auth_api (UpdateMemberRole p b r) w)) p u
   = map_option (\<lambda>row. if pu_userId row = b then row\<lparr> pu_role := r \<rparr> else row)
       (selectMembership (projectUser w) p u)"
proof -
  let ?f = "\<lambda>row. if pu_projectId row = p \<and> pu_userId row = b
                   then row\<lparr> pu_role := r \<rparr> else row"
  have "selectMembership (map ?f (projectUser w)) p u
        = map_option ?f (selectMembership (projectUser w) p u)"
    by (rule selectMembership_map) simp_all
  moreover have "map_option ?f (selectMembership (projectUser w) p u)
        = map_option (\<lambda>row. if pu_userId row = b then row\<lparr> pu_role := r \<rparr> else row)
            (selectMembership (projectUser w) p u)"
  proof (cases "selectMembership (projectUser w) p u")
    case None
    then show ?thesis by simp
  next
    case (Some t)
    then have "pu_projectId t = p"
      using selectMembership_SomeD by blast
    with Some show ?thesis by simp
  qed
  ultimately show ?thesis by simp
qed

text \<open>Once the provider has made a second member an owner, the project has at
  least two owner rows.\<close>

lemma owners_after_promotion:
  assumes a: "selectMembership (projectUser w) p a = Some t" "pu_role t = ''owner''"
    and b: "selectMembership (projectUser w) p b = Some t2"
    and ab: "a \<noteq> b"
  shows "2 \<le> owners (getProjectMemberCounts
                  (projectUser (auth_api (UpdateMemberRole p b ''owner'') w)) p)"
proof -
  let ?db = "projectUser w"
  let ?f = "\<lambda>row. if pu_projectId row = p \<and> pu_userId row = b
                   then row\<lparr> pu_role := ''owner'' \<rparr> else row"
  let ?P = "\<lambda>r. pu_projectId r = p \<and> pu_userId r = b"
  let ?Q = "\<lambda>r. pu_projectId r = p \<and> pu_userId r \<noteq> b \<and> pu_role r = ''owner''"
  have comp: "(\<lambda>r. pu_projectId r = p \<and> pu_role r = ''owner'') \<circ> ?f = (\<lambda>r. ?P r \<or> ?Q r)"
    by (auto simp: fun_eq_iff)
  have "owners (getProjectMemberCounts (map ?f ?db) p)
        = length (filter (\<lambda>r. ?P r \<or> ?Q r) ?db)"
    by (simp add: getProjectMemberCounts_def filter_map comp)
  also have "\<dots> = length (filter ?P ?db) + length (filter ?Q ?db)"
    by (rule filter_length_disj) auto
  finally have eq: "owners (getProjectMemberCounts (map ?f ?db) p)
        = length (filter ?P ?db) + length (filter ?Q ?db)" .
  from b have "t2 \<in> set ?db" and "?P t2"
    by (auto dest: selectMembership_SomeD)
  then have "0 < length (filter ?P ?db)"
    by (rule filter_length_pos [of t2 ?db ?P])
  moreover from a ab have "t \<in> set ?db" and "?Q t"
    by (auto dest: selectMembership_SomeD)
  then have "0 < length (filter ?Q ?db)"
    by (rule filter_length_pos [of t ?db ?Q])
  ultimately have "2 \<le> length (filter ?P ?db) + length (filter ?Q ?db)"
    by linarith
  with eq show ?thesis by simp
qed

text \<open>Lookups and counts in the example world.\<close>

lemma ex_select:
  "selectMembership (projectUser ex_world) ''p1'' ''alice'' = Some (row ''p1'' ''alice'' ''owner'')"
  "selectMembership (projectUser ex_world) ''p1'' ''bob'' = Some (row ''p1'' ''bob'' ''member'')"
  "selectMembership (projectUser ex_world) ''p2'' ''carol'' = Some (row ''p2'' ''carol'' ''admin'')"
  "selectMembership (projectUser ex_world) ''p2'' ''dave'' = Some (row ''p2'' ''dave'' ''member'')"
  "selectMembership (projectUser ex_world) ''p4'' ''frank'' = Some (row ''p4'' ''frank'' ''owner'')"
  "selectMembership (projectUser ex_world) ''p1'' ''ghost'' = None"
  by (simp_all add: selectMembership_def ex_world_def row_def)

lemma ex_counts:
  "getProjectMemberCounts (projectUser ex_world) ''p1'' = \<lparr> total = 2, owners = 1, admins = 0 \<rparr>"
  "getProjectMemberCounts (projectUser ex_world) ''p2'' = \<lparr> total = 2, owners = 0, admins = 1 \<rparr>"
  "getProjectMemberCounts (projectUser ex_world) ''p3'' = \<lparr> total = 1, owners = 0, admins = 0 \<rparr>"
  "getProjectMemberCounts (projectUser ex_world) ''p4'' = \<lparr> total = 1, owners = 1, admins = 0 \<rparr>"
  by (simp_all add: getProjectMemberCounts_def ex_world_def row_def)

lemma ex_ctx_simps:
  "activeProjectId (ex_ctx p u r) = Some p"
  "userId (ex_ctx p u r) = Some u"
  "projectUserRole (ex_ctx p u r) = Some r"
  by (simp_all add: ex_ctx_def)

lemma ex_zodEmail_simps:
  "ex_zodEmail ''zoe@example.com'' = None"
  "ex_zodEmail ''not-an-email'' = Some ''Invalid email''"
  by (simp_all add: ex_zodEmail_def)

lemma row_simps:
  "pu_projectId (row p u r) = p" "pu_userId (row p u r) = u" "pu_role (row p u r) = r"
  by (simp_all add: row_def)

section \<open>Setup progress and the step gate\<close>

text \<open>
  C7. For every setup record, \<open>pendingSteps\<close> is the number of steps (positions in
  the list) that are required and not complete, and \<open>allRequiredComplete\<close> holds
  exactly when every required step is complete.
\<close>

theorem C7_progress_aggregates:
  "pendingSteps steps =
     card {i. i < length steps \<and> isRequired (steps ! i) \<and> \<not> isComplete (steps ! i)}
   \<and> (allRequiredComplete steps \<longleftrightarrow> (\<forall>s \<in> set steps. isRequired s \<longrightarrow> isComplete s))"
  by (auto simp: pendingSteps_def allRequiredComplete_def length_filter_conv_card list_all_iff)

theorem C7_progress_aggregates_witness:
  "pendingSteps ex_steps = 2
   \<and> card {i. i < length ex_steps \<and> isRequired (ex_steps ! i) \<and> \<not> isComplete (ex_steps ! i)} = 2
   \<and> \<not> allRequiredComplete ex_steps"
proof -
  have p: "pendingSteps ex_steps = 2"
    by (simp add: pendingSteps_def ex_steps_def)
  have n: "\<not> (\<forall>s \<in> set ex_steps. isRequired s \<longrightarrow> isComplete s)"
    by (simp add: ex_steps_def)
  from C7_progress_aggregates [of ex_steps] p n show ?thesis by simp
qed

text \<open>
  C8. In the gate as the spec describes it, \<open>canProceedToStep ''rewards''\<close> is
  false whenever a required, incomplete design step precedes rewards; and
  \<open>canProceedToStep\<close> permits a step exactly when every required step that
  precedes it is complete. The steps that precede a step are the prefix of the
  ordered list before it.
\<close>

theorem C8_canProceedToStep_gate:
  "(d \<in> set (preceding ''rewards'' steps) \<and> step_id d = ''design'' \<and> isRequired d
      \<and> \<not> isComplete d \<longrightarrow> \<not> canProceedToStep ''rewards'' steps)
   \<and> (canProceedToStep sid steps \<longleftrightarrow>
        (\<forall>s \<in> set (preceding sid steps). isRequired s \<longrightarrow> isComplete s))
   \<and> (steps = pre @ t # post \<and> step_id t = sid \<and> (\<forall>x \<in> set pre. step_id x \<noteq> sid) \<longrightarrow>
        (canProceedToStep sid steps \<longleftrightarrow> (\<forall>x \<in> set pre. isRequired x \<longrightarrow> isComplete x)))"
  by (auto simp: canProceedToStep_def preceding_def list_all_iff takeWhile_append)

theorem C8_canProceedToStep_gate_witness:
  "canProceedToStep ''rewards'' ex_steps
   \<and> \<not> canProceedToStep ''rewards'' (map (\<lambda>s. s\<lparr> isComplete := False \<rparr>) ex_steps)
   \<and> \<not> canProceedToStep ''installation'' ex_steps"
proof -
  let ?d = "\<lparr> step_id = ''design'', step_title = ''Design'', isRequired = True,
              isComplete = False \<rparr>"
  have a: "\<forall>s \<in> set (preceding ''rewards'' ex_steps). isRequired s \<longrightarrow> isComplete s"
    by (simp add: preceding_def ex_steps_def)
  have b: "?d \<in> set (preceding ''rewards'' (map (\<lambda>s. s\<lparr> isComplete := False \<rparr>) ex_steps))"
    by (simp add: preceding_def ex_steps_def)
  have c: "\<not> (\<forall>s \<in> set (preceding ''installation'' ex_steps). isRequired s \<longrightarrow> isComplete s)"
    by (simp add: preceding_def ex_steps_def)
  from C8_canProceedToStep_gate
         [of ?d "map (\<lambda>s. s\<lparr> isComplete := False \<rparr>) ex_steps", THEN conjunct1] b
  have "\<not> canProceedToStep ''rewards'' (map (\<lambda>s. s\<lparr> isComplete := False \<rparr>) ex_steps)"
    by simp
  moreover from C8_canProceedToStep_gate
         [where steps = ex_steps and sid = "''rewards''", THEN conjunct2, THEN conjunct1] a
  have "canProceedToStep ''rewards'' ex_steps"
    by simp
  moreover from C8_canProceedToStep_gate
         [where steps = ex_steps and sid = "''installation''", THEN conjunct2, THEN conjunct1] c
  have "\<not> canProceedToStep ''installation'' ex_steps"
    by simp
  ultimately show ?thesis by simp
qed

section \<open>Reward step submission\<close>

text \<open>
  C9. When both the referrer side and the referee side are disabled,
  \<open>submitForm\<close> never returns a configuration object, whatever the values of
  the form: a submission that passes validation returns the absent value
  (\<open>Inr None\<close>, that is \<^verbatim>\<open>undefined\<close>).
\<close>

theorem C9_both_disabled_undefined:
  "\<not> rr_enabled (referrerReward (form_vals st)) \<Longrightarrow>
   \<not> re_enabled (refereeReward (form_vals st)) \<Longrightarrow>
   (\<forall>cfg. submitForm st \<noteq> Inr (Some cfg))
   \<and> (\<not> isValidating st \<and> isValid st \<longrightarrow> submitForm st = Inr None)"
  by (simp add: submitForm_def Let_def)

theorem C9_both_disabled_undefined_witness:
  "submitForm (ex_form False False) = Inr None"
proof -
  have "\<not> rr_enabled (referrerReward (form_vals (ex_form False False)))"
    and "\<not> re_enabled (refereeReward (form_vals (ex_form False False)))"
    and "\<not> isValidating (ex_form False False) \<and> isValid (ex_form False False)"
    by (simp_all add: ex_form_def)
  with C9_both_disabled_undefined [of "ex_form False False"] show ?thesis
    by blast
qed

text \<open>
  C10. A submission that passes validation and has at least one side enabled
  returns a configuration with both entries: the referrer entry has type
  \<open>cash\<close>, the referee entry has type \<open>discount\<close>, and each entry carries the
  values submitted for its side, whether or not that side is enabled.
\<close>

theorem C10_config_has_both_sides:
  "\<not> isValidating st \<Longrightarrow> isValid st \<Longrightarrow>
   rr_enabled (referrerReward (form_vals st)) \<or> re_enabled (refereeReward (form_vals st)) \<Longrightarrow>
   submitForm st = Inr (Some
     \<lparr> referrer = \<lparr> rc_type = ''cash'',
                    rc_valueType = rr_valueType (referrerReward (form_vals st)),
                    rc_value = rr_value (referrerReward (form_vals st)),
                    rc_currency = rr_currency (referrerReward (form_vals st)) \<rparr>,
       referee = \<lparr> fc_type = ''discount'',
                   fc_valueType = re_valueType (refereeReward (form_vals st)),
                   fc_value = re_value (refereeReward (form_vals st)),
                   fc_currency = re_currency (refereeReward (form_vals st)),
                   fc_minPurchaseAmount = re_minPurchaseAmount (refereeReward (form_vals st)),
                   fc_validityDays = re_validityDays (refereeReward (form_vals st)) \<rparr> \<rparr>)"
  by (simp add: submitForm_def Let_def)

theorem C10_config_has_both_sides_witness:
  "submitForm (ex_form True False) = Inr (Some
     \<lparr> referrer = \<lparr> rc_type = ''cash'', rc_valueType = ''fixed'', rc_value = 10,
                    rc_currency = ''USD'' \<rparr>,
       referee = \<lparr> fc_type = ''discount'', fc_valueType = ''percentage'', fc_value = 20,
                   fc_currency = ''USD'', fc_minPurchaseAmount = Some 50,
                   fc_validityDays = 30 \<rparr> \<rparr>)"
proof -
  have "\<not> isValidating (ex_form True False)" and "isValid (ex_form True False)"
    and "rr_enabled (referrerReward (form_vals (ex_form True False)))
         \<or> re_enabled (refereeReward (form_vals (ex_form True False)))"
    by (simp_all add: ex_form_def)
  from C10_config_has_both_sides [OF this] show ?thesis
    by (simp add: ex_form_def)
qed

section \<open>Membership governance\<close>

text \<open>
  C3. In a project with exactly one member, \<open>remove\<close> fails and leaves the
  tables and the provider untouched, whoever calls and whoever is the target;
  when the caller is that member and is not a plain member, the error is
  BAD_REQUEST, "Cannot remove the last member of the project".
\<close>

theorem C3_last_member_not_removed:
  "activeProjectId c = Some p \<Longrightarrow>
   total (getProjectMemberCounts (projectUser w) p) = 1 \<Longrightarrow>
   (\<exists>e. remove_member c uid w = (Inl e, w))
   \<and> (p \<noteq> [] \<and> userId c = Some cu \<and> cu \<noteq> []
        \<and> selectMembership (projectUser w) p cu = Some m \<and> pu_role m \<noteq> ''member''
        \<and> selectMembership (projectUser w) p uid = Some t \<longrightarrow>
      remove_member c uid w =
        (Inl (TRPCError BAD_REQUEST ''Cannot remove the last member of the project''), w))"
  by (auto simp: remove_member_def validateMemberRemoval_def Let_def split: option.splits)

theorem C3_last_member_not_removed_witness:
  "(\<exists>e. remove_member (ex_ctx ''p3'' ''erin'' ''member'') ''erin'' ex_world = (Inl e, ex_world))
   \<and> remove_member (ex_ctx ''p4'' ''frank'' ''owner'') ''frank'' ex_world
       = (Inl (TRPCError BAD_REQUEST ''Cannot remove the last member of the project''),
          ex_world)"
proof -
  have a: "activeProjectId (ex_ctx ''p3'' ''erin'' ''member'') = Some ''p3''"
    and b: "total (getProjectMemberCounts (projectUser ex_world) ''p3'') = 1"
    and c: "activeProjectId (ex_ctx ''p4'' ''frank'' ''owner'') = Some ''p4''"
    and d: "total (getProjectMemberCounts (projectUser ex_world) ''p4'') = 1"
    by (simp_all add: ex_ctx_simps ex_counts)
  have e: "userId (ex_ctx ''p4'' ''frank'' ''owner'') = Some ''frank''"
    and f: "selectMembership (projectUser ex_world) ''p4'' ''frank''
            = Some (row ''p4'' ''frank'' ''owner'')"
    and g: "pu_role (row ''p4'' ''frank'' ''owner'') \<noteq> ''member''"
    by (simp_all add: ex_ctx_simps ex_select row_simps)
  from C3_last_member_not_removed [OF a b, of "''erin''"]
  have "\<exists>e. remove_member (ex_ctx ''p3'' ''erin'' ''member'') ''erin'' ex_world
               = (Inl e, ex_world)"
    by simp
  moreover from C3_last_member_not_removed
    [OF c d, where uid = "''frank''" and cu = "''frank''"
      and m = "row ''p4'' ''frank'' ''owner''" and t = "row ''p4'' ''frank'' ''owner''"]
    e f g
  have "remove_member (ex_ctx ''p4'' ''frank'' ''owner'') ''frank'' ex_world
       = (Inl (TRPCError BAD_REQUEST ''Cannot remove the last member of the project''),
          ex_world)"
    by simp
  ultimately show ?thesis by simp
qed

text \<open>
  C4 (as amended). A caller whose role in the active project is member (as
  resolved in the request context and as stored in the membership table) gets
  FORBIDDEN from changeRole, remove, cancelInvitation and resendInvitation for
  every input, and from invite for every input whose email passes the email
  check of the input schema; an invite whose email fails that check is
  rejected with BAD_REQUEST by input validation, before the role is looked at.
  In every case nothing is changed and the provider is not called.
\<close>

theorem C4_member_caller_forbidden:
  assumes "activeProjectId c = Some p" "p \<noteq> []" "userId c = Some u" "u \<noteq> []"
    and "projectUserRole c = Some ''member''"
    and "selectMembership (projectUser w) p u = Some m" "pu_role m = ''member''"
  shows "(zodEmail email = None \<longrightarrow>
        invite zodEmail c email r w
          = (Inl (TRPCError FORBIDDEN
               ''You don't have permission to invite members. Only owners and admins can invite.''),
             w))
    \<and> (zodEmail email = Some msg \<longrightarrow>
        invite zodEmail c email r w = (Inl (TRPCError BAD_REQUEST msg), w))
    \<and> snd (invite zodEmail c email r w) = w
    \<and> code_of (fst (changeRole c uid r w)) = Some FORBIDDEN \<and> snd (changeRole c uid r w) = w
    \<and> code_of (fst (remove_member c uid w)) = Some FORBIDDEN \<and> snd (remove_member c uid w) = w
    \<and> code_of (fst (cancelInvitation c iid w)) = Some FORBIDDEN
    \<and> snd (cancelInvitation c iid w) = w
    \<and> code_of (fst (resendInvitation c email r w)) = Some FORBIDDEN
    \<and> snd (resendInvitation c email r w) = w"
proof -
  have I: "(zodEmail email = None \<longrightarrow>
        invite zodEmail c email r w
          = (Inl (TRPCError FORBIDDEN
               ''You don't have permission to invite members. Only owners and admins can invite.''),
             w))
    \<and> (zodEmail email = Some msg \<longrightarrow>
        invite zodEmail c email r w = (Inl (TRPCError BAD_REQUEST msg), w))
    \<and> snd (invite zodEmail c email r w) = w"
    using assms by (cases "zodEmail email") (simp_all add: invite_def)
  have R: "code_of (fst (changeRole c uid r w)) = Some FORBIDDEN \<and> snd (changeRole c uid r w) = w
    \<and> code_of (fst (remove_member c uid w)) = Some FORBIDDEN \<and> snd (remove_member c uid w) = w
    \<and> code_of (fst (cancelInvitation c iid w)) = Some FORBIDDEN
    \<and> snd (cancelInvitation c iid w) = w
    \<and> code_of (fst (resendInvitation c email r w)) = Some FORBIDDEN
    \<and> snd (resendInvitation c email r w) = w"
    using assms
    by (simp add: changeRole_def remove_member_def cancelInvitation_def
        resendInvitation_def validateRoleChange_def validateMemberRemoval_def)
  from I R show ?thesis by simp
qed

theorem C4_member_caller_forbidden_witness:
  "code_of (fst (invite ex_zodEmail (ex_ctx ''p1'' ''bob'' ''member'') ''zoe@example.com''
        Member ex_world)) = Some FORBIDDEN
   \<and> code_of (fst (invite ex_zodEmail (ex_ctx ''p1'' ''bob'' ''member'') ''not-an-email''
        Member ex_world)) = Some BAD_REQUEST
   \<and> code_of (fst (changeRole (ex_ctx ''p1'' ''bob'' ''member'') ''bob'' Admin ex_world))
     = Some FORBIDDEN
   \<and> code_of (fst (remove_member (ex_ctx ''p1'' ''bob'' ''member'') ''alice'' ex_world))
     = Some FORBIDDEN
   \<and> code_of (fst (cancelInvitation (ex_ctx ''p1'' ''bob'' ''member'') ''inv1'' ex_world))
     = Some FORBIDDEN
   \<and> code_of (fst (resendInvitation (ex_ctx ''p1'' ''bob'' ''member'') ''zoe@example.com''
        Member ex_world)) = Some FORBIDDEN
   \<and> snd (remove_member (ex_ctx ''p1'' ''bob'' ''member'') ''alice'' ex_world) = ex_world"
proof -
  let ?c = "ex_ctx ''p1'' ''bob'' ''member''"
  have h: "activeProjectId ?c = Some ''p1''" "''p1'' \<noteq> []" "userId ?c = Some ''bob''"
    "''bob'' \<noteq> []" "projectUserRole ?c = Some ''member''"
    "selectMembership (projectUser ex_world) ''p1'' ''bob'' = Some (row ''p1'' ''bob'' ''member'')"
    "pu_role (row ''p1'' ''bob'' ''member'') = ''member''"
    by (simp_all add: ex_ctx_simps ex_select row_simps)
  note a = C4_member_caller_forbidden
    [OF h, where zodEmail = ex_zodEmail and email = "''zoe@example.com''" and r = Member
      and uid = "''bob''" and iid = "''inv1''"]
  note b = C4_member_caller_forbidden
    [OF h, where zodEmail = ex_zodEmail and email = "''not-an-email''" and r = Admin
      and uid = "''bob''" and iid = "''inv1''" and msg = "''Invalid email''"]
  note c = C4_member_caller_forbidden
    [OF h, where zodEmail = ex_zodEmail and email = "''zoe@example.com''" and r = Member
      and uid = "''alice''" and iid = "''inv1''"]
  note d = C4_member_caller_forbidden
    [OF h, where zodEmail = ex_zodEmail and email = "''not-an-email''" and r = Member
      and uid = "''bob''" and iid = "''inv1''" and msg = "''Invalid email''"]
  from a b c d ex_zodEmail_simps show ?thesis by simp
qed

text \<open>The claim as stated fails for an invite whose email is malformed: bob, a
  plain member of \<open>p1\<close>, gets BAD_REQUEST, not FORBIDDEN, when the email of his
  invite is \<open>not-an-email\<close>, which the email check rejects.\<close>

theorem C4_malformed_email_counterexample:
  "ex_zodEmail ''not-an-email'' \<noteq> None
   \<and> selectMembership (projectUser ex_world) ''p1'' ''bob''
       = Some (row ''p1'' ''bob'' ''member'')
   \<and> code_of (fst (invite ex_zodEmail (ex_ctx ''p1'' ''bob'' ''member'') ''not-an-email''
        Member ex_world)) = Some BAD_REQUEST
   \<and> snd (invite ex_zodEmail (ex_ctx ''p1'' ''bob'' ''member'') ''not-an-email''
        Member ex_world) = ex_world"
  by (simp add: invite_def ex_zodEmail_simps ex_select)

text \<open>
  C1 (as amended). In a project with exactly one owner, changeRole of that
  owner to a role other than owner, and remove of that owner, are always
  rejected and change nothing. For a caller who is identified in the request
  (a non-empty project id and user id): the error is BAD_REQUEST, by the
  last-owner rule (or, for remove, the last-member rule), when the caller is a
  member of the project whose role is not member; it is FORBIDDEN when the
  caller's role is member and when the caller has no membership in the
  project, since the permission check runs first. A request with an empty
  project id or without user id gets BAD_REQUEST. Once the owner has promoted
  a second member to owner, demoting the original owner succeeds for every
  caller of the project whose role is not member.
\<close>

theorem C1_sole_owner_guard:
  assumes proj: "activeProjectId c = Some p"
    and one: "owners (getProjectMemberCounts (projectUser w) p) = 1"
    and tgt: "selectMembership (projectUser w) p ownerId = Some t" "pu_role t = ''owner''"
    and r: "r \<noteq> Owner"
  shows "code_of (fst (changeRole c ownerId r w)) \<in> {Some BAD_REQUEST, Some FORBIDDEN}
    \<and> snd (changeRole c ownerId r w) = w
    \<and> code_of (fst (remove_member c ownerId w)) \<in> {Some BAD_REQUEST, Some FORBIDDEN}
    \<and> snd (remove_member c ownerId w) = w
    \<and> (userId c = Some cu \<and> selectMembership (projectUser w) p cu = Some m
         \<and> pu_role m \<noteq> ''member'' \<longrightarrow>
       code_of (fst (changeRole c ownerId r w)) = Some BAD_REQUEST
       \<and> code_of (fst (remove_member c ownerId w)) = Some BAD_REQUEST)
    \<and> (p \<noteq> [] \<and> userId c = Some cu \<and> cu \<noteq> []
         \<and> selectMembership (projectUser w) p cu = Some m \<and> pu_role m \<noteq> ''member'' \<longrightarrow>
       changeRole c ownerId r w
         = (Inl (TRPCError BAD_REQUEST
              ''Cannot demote the last owner. Promote another member to owner first.''), w)
       \<and> remove_member c ownerId w
         = (Inl (TRPCError BAD_REQUEST
              (if total (getProjectMemberCounts (projectUser w) p) = 1
               then ''Cannot remove the last member of the project''
               else ''Cannot remove the last owner. Promote another member to owner first.'')),
            w))
    \<and> (p \<noteq> [] \<and> userId c = Some cu \<and> cu \<noteq> []
         \<and> selectMembership (projectUser w) p cu = Some m \<and> pu_role m = ''member'' \<longrightarrow>
       changeRole c ownerId r w
         = (Inl (TRPCError FORBIDDEN ''You don't have permission to change roles''), w)
       \<and> remove_member c ownerId w
         = (Inl (TRPCError FORBIDDEN ''You don't have permission to remove members''), w))
    \<and> (p \<noteq> [] \<and> userId c = Some cu \<and> cu \<noteq> []
         \<and> selectMembership (projectUser w) p cu = None \<longrightarrow>
       changeRole c ownerId r w
         = (Inl (TRPCError FORBIDDEN ''You are not a member of this project''), w)
       \<and> remove_member c ownerId w
         = (Inl (TRPCError FORBIDDEN ''You are not a member of this project''), w))
    \<and> (p = [] \<or> \<not> truthy (userId c) \<longrightarrow>
       changeRole c ownerId r w
         = (Inl (TRPCError BAD_REQUEST ''No active project or user''), w)
       \<and> remove_member c ownerId w
         = (Inl (TRPCError BAD_REQUEST ''No active project or user''), w))
    \<and> (p \<noteq> [] \<and> userId c = Some ownerId \<and> ownerId \<noteq> [] \<and> other \<noteq> ownerId
         \<and> selectMembership (projectUser w) p other = Some t2
         \<and> w1 = auth_api (UpdateMemberRole p other ''owner'') w
         \<and> activeProjectId c2 = Some p \<and> userId c2 = Some cu2 \<and> cu2 \<noteq> []
         \<and> selectMembership (projectUser w1) p cu2 = Some m2 \<and> pu_role m2 \<noteq> ''member'' \<longrightarrow>
       changeRole c other Owner w = (Inr Success, w1)
       \<and> changeRole c2 ownerId r w1
           = (Inr Success, auth_api (UpdateMemberRole p ownerId (role_str r)) w1))"
proof -
  have rs: "role_str r \<noteq> ''owner''" using r by (cases r) simp_all
  have A: "code_of (fst (changeRole c ownerId r w)) \<in> {Some BAD_REQUEST, Some FORBIDDEN}
    \<and> snd (changeRole c ownerId r w) = w"
    using proj one tgt rs
    by (auto simp: changeRole_def validateRoleChange_def Let_def split: option.splits)
  have B: "code_of (fst (remove_member c ownerId w)) \<in> {Some BAD_REQUEST, Some FORBIDDEN}
    \<and> snd (remove_member c ownerId w) = w"
    using proj one tgt
    by (auto simp: remove_member_def validateMemberRemoval_def Let_def split: option.splits)
  have C: "userId c = Some cu \<and> selectMembership (projectUser w) p cu = Some m
         \<and> pu_role m \<noteq> ''member'' \<longrightarrow>
       code_of (fst (changeRole c ownerId r w)) = Some BAD_REQUEST
       \<and> code_of (fst (remove_member c ownerId w)) = Some BAD_REQUEST"
    using proj one tgt rs
    by (auto simp: changeRole_def validateRoleChange_def remove_member_def
        validateMemberRemoval_def Let_def)
  have E: "p \<noteq> [] \<and> userId c = Some cu \<and> cu \<noteq> []
         \<and> selectMembership (projectUser w) p cu = Some m \<and> pu_role m \<noteq> ''member'' \<longrightarrow>
       changeRole c ownerId r w
         = (Inl (TRPCError BAD_REQUEST
              ''Cannot demote the last owner. Promote another member to owner first.''), w)
       \<and> remove_member c ownerId w
         = (Inl (TRPCError BAD_REQUEST
              (if total (getProjectMemberCounts (projectUser w) p) = 1
               then ''Cannot remove the last member of the project''
               else ''Cannot remove the last owner. Promote another member to owner first.'')),
            w)"
    using proj one tgt rs
    by (simp add: changeRole_def validateRoleChange_def remove_member_def
        validateMemberRemoval_def Let_def)
  have F: "p \<noteq> [] \<and> userId c = Some cu \<and> cu \<noteq> []
         \<and> selectMembership (projectUser w) p cu = Some m \<and> pu_role m = ''member'' \<longrightarrow>
       changeRole c ownerId r w
         = (Inl (TRPCError FORBIDDEN ''You don't have permission to change roles''), w)
       \<and> remove_member c ownerId w
         = (Inl (TRPCError FORBIDDEN ''You don't have permission to remove members''), w)"
    using proj
    by (simp add: changeRole_def validateRoleChange_def remove_member_def
        validateMemberRemoval_def)
  have G: "p \<noteq> [] \<and> userId c = Some cu \<and> cu \<noteq> []
         \<and> selectMembership (projectUser w) p cu = None \<longrightarrow>
       changeRole c ownerId r w
         = (Inl (TRPCError FORBIDDEN ''You are not a member of this project''), w)
       \<and> remove_member c ownerId w
         = (Inl (TRPCError FORBIDDEN ''You are not a member of this project''), w)"
    using proj
    by (simp add: changeRole_def validateRoleChange_def remove_member_def
        validateMemberRemoval_def)
  have H: "p = [] \<or> \<not> truthy (userId c) \<longrightarrow>
       changeRole c ownerId r w
         = (Inl (TRPCError BAD_REQUEST ''No active project or user''), w)
       \<and> remove_member c ownerId w
         = (Inl (TRPCError BAD_REQUEST ''No active project or user''), w)"
    using proj
    by (auto simp: changeRole_def remove_member_def)
  have D: "changeRole c other Owner w = (Inr Success, w1)
       \<and> changeRole c2 ownerId r w1
           = (Inr Success, auth_api (UpdateMemberRole p ownerId (role_str r)) w1)"
    if h: "p \<noteq> []" "userId c = Some ownerId" "ownerId \<noteq> []" "other \<noteq> ownerId"
      "selectMembership (projectUser w) p other = Some t2"
      "w1 = auth_api (UpdateMemberRole p other ''owner'') w"
      "activeProjectId c2 = Some p" "userId c2 = Some cu2" "cu2 \<noteq> []"
      "selectMembership (projectUser w1) p cu2 = Some m2" "pu_role m2 \<noteq> ''member''"
  proof
    show "changeRole c other Owner w = (Inr Success, w1)"
      using proj h(1,2,3,5,6) tgt
      by (simp add: changeRole_def validateRoleChange_def Let_def)
    have two: "2 \<le> owners (getProjectMemberCounts (projectUser w1) p)"
      unfolding h(6) using tgt h(5) h(4) by (intro owners_after_promotion) auto
    have sel: "selectMembership (projectUser w1) p ownerId = Some t"
      unfolding h(6) selectMembership_after_update using tgt h(4)
      by (auto dest: selectMembership_SomeD)
    show "changeRole c2 ownerId r w1
           = (Inr Success, auth_api (UpdateMemberRole p ownerId (role_str r)) w1)"
      using h(1,7,8,9,10,11) two sel tgt(2) rs
      by (simp add: changeRole_def validateRoleChange_def Let_def)
  qed
  from D have D': "p \<noteq> [] \<and> userId c = Some ownerId \<and> ownerId \<noteq> [] \<and> other \<noteq> ownerId
         \<and> selectMembership (projectUser w) p other = Some t2
         \<and> w1 = auth_api (UpdateMemberRole p other ''owner'') w
         \<and> activeProjectId c2 = Some p \<and> userId c2 = Some cu2 \<and> cu2 \<noteq> []
         \<and> selectMembership (projectUser w1) p cu2 = Some m2 \<and> pu_role m2 \<noteq> ''member'' \<longrightarrow>
       changeRole c other Owner w = (Inr Success, w1)
       \<and> changeRole c2 ownerId r w1
           = (Inr Success, auth_api (UpdateMemberRole p ownerId (role_str r)) w1)"
    by blast
  from A B C E F G H D' show ?thesis by blast
qed

theorem C1_sole_owner_guard_witness:
  "code_of (fst (changeRole (ex_ctx ''p1'' ''alice'' ''owner'') ''alice'' Admin ex_world))
     = Some BAD_REQUEST
   \<and> snd (changeRole (ex_ctx ''p1'' ''alice'' ''owner'') ''alice'' Admin ex_world) = ex_world
   \<and> code_of (fst (remove_member (ex_ctx ''p1'' ''alice'' ''owner'') ''alice'' ex_world))
     = Some BAD_REQUEST
   \<and> snd (remove_member (ex_ctx ''p1'' ''alice'' ''owner'') ''alice'' ex_world) = ex_world
   \<and> changeRole (ex_ctx ''p1'' ''alice'' ''owner'') ''bob'' Owner ex_world
     = (Inr Success, auth_api (UpdateMemberRole ''p1'' ''bob'' ''owner'') ex_world)
   \<and> changeRole (ex_ctx ''p1'' ''bob'' ''owner'') ''alice'' Admin
       (auth_api (UpdateMemberRole ''p1'' ''bob'' ''owner'') ex_world)
     = (Inr Success,
        auth_api (UpdateMemberRole ''p1'' ''alice'' ''admin'')
          (auth_api (UpdateMemberRole ''p1'' ''bob'' ''owner'') ex_world))
   \<and> changeRole (ex_ctx ''p1'' ''bob'' ''member'') ''alice'' Admin ex_world
     = (Inl (TRPCError FORBIDDEN ''You don't have permission to change roles''), ex_world)"
proof -
  let ?a = "ex_ctx ''p1'' ''alice'' ''owner''"
  let ?b = "ex_ctx ''p1'' ''bob'' ''owner''"
  let ?w1 = "auth_api (UpdateMemberRole ''p1'' ''bob'' ''owner'') ex_world"
  have h: "activeProjectId ?a = Some ''p1''"
    "owners (getProjectMemberCounts (projectUser ex_world) ''p1'') = 1"
    "selectMembership (projectUser ex_world) ''p1'' ''alice''
       = Some (row ''p1'' ''alice'' ''owner'')"
    "pu_role (row ''p1'' ''alice'' ''owner'') = ''owner''"
    "Admin \<noteq> Owner"
    by (simp_all add: ex_ctx_simps ex_counts ex_select row_simps)
  have bob: "selectMembership (projectUser ?w1) ''p1'' ''bob''
               = Some (row ''p1'' ''bob'' ''owner'')"
    unfolding selectMembership_after_update ex_select by (simp add: row_def)
  have k: "userId ?a = Some ''alice''" "pu_role (row ''p1'' ''alice'' ''owner'') \<noteq> ''member''"
    "''p1'' \<noteq> []" "''alice'' \<noteq> []" "''bob'' \<noteq> ''alice''"
    "selectMembership (projectUser ex_world) ''p1'' ''bob'' = Some (row ''p1'' ''bob'' ''member'')"
    "activeProjectId ?b = Some ''p1''" "userId ?b = Some ''bob''" "''bob'' \<noteq> []"
    "pu_role (row ''p1'' ''bob'' ''owner'') \<noteq> ''member''"
    by (simp_all add: ex_ctx_simps ex_select row_simps)
  note th = C1_sole_owner_guard
    [OF h, where cu = "''alice''" and m = "row ''p1'' ''alice'' ''owner''"
      and other = "''bob''" and ?t2.0 = "row ''p1'' ''bob'' ''member''" and ?w1.0 = ?w1
      and ?c2.0 = ?b and ?cu2.0 = "''bob''" and ?m2.0 = "row ''p1'' ''bob'' ''owner''"]
  have hb: "activeProjectId (ex_ctx ''p1'' ''bob'' ''member'') = Some ''p1''"
    by (simp add: ex_ctx_simps)
  have kb: "userId (ex_ctx ''p1'' ''bob'' ''member'') = Some ''bob''"
    "pu_role (row ''p1'' ''bob'' ''member'') = ''member''"
    by (simp_all add: ex_ctx_simps row_simps)
  note tb = C1_sole_owner_guard
    [OF hb h(2-5), where cu = "''bob''" and m = "row ''p1'' ''bob'' ''member''"]
  from tb k kb have "changeRole (ex_ctx ''p1'' ''bob'' ''member'') ''alice'' Admin ex_world
     = (Inl (TRPCError FORBIDDEN ''You don't have permission to change roles''), ex_world)"
    by simp
  with th h(3) k bob show ?thesis
    by (simp del: auth_api.simps)
qed

text \<open>The claim as stated fails for a caller with role member: bob, a plain
  member of \<open>p1\<close>, is refused with FORBIDDEN, not BAD_REQUEST, when he tries to
  demote or remove alice, the only owner.\<close>

theorem C1_member_caller_counterexample:
  "owners (getProjectMemberCounts (projectUser ex_world) ''p1'') = 1
   \<and> selectMembership (projectUser ex_world) ''p1'' ''alice''
       = Some (row ''p1'' ''alice'' ''owner'')
   \<and> changeRole (ex_ctx ''p1'' ''bob'' ''member'') ''alice'' Member ex_world
       = (Inl (TRPCError FORBIDDEN ''You don't have permission to change roles''), ex_world)
   \<and> remove_member (ex_ctx ''p1'' ''bob'' ''member'') ''alice'' ex_world
       = (Inl (TRPCError FORBIDDEN ''You don't have permission to remove members''), ex_world)"
  by (simp add: changeRole_def remove_member_def validateRoleChange_def
      validateMemberRemoval_def ex_ctx_simps ex_counts ex_select row_simps)

text \<open>
  C2 (as amended). In a project with no owner and exactly one admin,
  changeRole of that admin to member, and remove of that admin, are always
  rejected and change nothing. For a caller who is identified in the request
  (a non-empty project id and user id): the error is BAD_REQUEST, by the
  last-admin rule (or, for remove, the last-member rule), when the caller is a
  member of the project whose role is not member; it is FORBIDDEN when the
  caller's role is member and when the caller has no membership in the
  project, since the permission check runs first. A request with an empty
  project id or without user id gets BAD_REQUEST. In a project where a second
  admin or an owner exists, the same two operations on an admin succeed for
  every caller of the project whose role is not member.
\<close>

theorem C2_sole_admin_guard:
  assumes proj: "activeProjectId c = Some p"
    and none: "owners (getProjectMemberCounts (projectUser w) p) = 0"
    and one: "admins (getProjectMemberCounts (projectUser w) p) = 1"
    and tgt: "selectMembership (projectUser w) p adminId = Some t" "pu_role t = ''admin''"
  shows "code_of (fst (changeRole c adminId Member w)) \<in> {Some BAD_REQUEST, Some FORBIDDEN}
    \<and> snd (changeRole c adminId Member w) = w
    \<and> code_of (fst (remove_member c adminId w)) \<in> {Some BAD_REQUEST, Some FORBIDDEN}
    \<and> snd (remove_member c adminId w) = w
    \<and> (userId c = Some cu \<and> selectMembership (projectUser w) p cu = Some m
         \<and> pu_role m \<noteq> ''member'' \<longrightarrow>
       code_of (fst (changeRole c adminId Member w)) = Some BAD_REQUEST
       \<and> code_of (fst (remove_member c adminId w)) = Some BAD_REQUEST)
    \<and> (p \<noteq> [] \<and> userId c = Some cu \<and> cu \<noteq> []
         \<and> selectMembership (projectUser w) p cu = Some m \<and> pu_role m \<noteq> ''member'' \<longrightarrow>
       changeRole c adminId Member w
         = (Inl (TRPCError BAD_REQUEST
              ''Cannot demote the last admin when there are no owners.''), w)
       \<and> remove_member c adminId w
         = (Inl (TRPCError BAD_REQUEST
              (if total (getProjectMemberCounts (projectUser w) p) = 1
               then ''Cannot remove the last member of the project''
               else ''Cannot remove the last admin when there are no owners.'')),
            w))
    \<and> (p \<noteq> [] \<and> userId c = Some cu \<and> cu \<noteq> []
         \<and> selectMembership (projectUser w) p cu = Some m \<and> pu_role m = ''member'' \<longrightarrow>
       changeRole c adminId Member w
         = (Inl (TRPCError FORBIDDEN ''You don't have permission to change roles''), w)
       \<and> remove_member c adminId w
         = (Inl (TRPCError FORBIDDEN ''You don't have permission to remove members''), w))
    \<and> (p \<noteq> [] \<and> userId c = Some cu \<and> cu \<noteq> []
         \<and> selectMembership (projectUser w) p cu = None \<longrightarrow>
       changeRole c adminId Member w
         = (Inl (TRPCError FORBIDDEN ''You are not a member of this project''), w)
       \<and> remove_member c adminId w
         = (Inl (TRPCError FORBIDDEN ''You are not a member of this project''), w))
    \<and> (p = [] \<or> \<not> truthy (userId c) \<longrightarrow>
       changeRole c adminId Member w
         = (Inl (TRPCError BAD_REQUEST ''No active project or user''), w)
       \<and> remove_member c adminId w
         = (Inl (TRPCError BAD_REQUEST ''No active project or user''), w))
    \<and> (p \<noteq> [] \<and> activeProjectId c2 = Some p \<and> userId c2 = Some cu2 \<and> cu2 \<noteq> []
         \<and> selectMembership (projectUser w2) p cu2 = Some m2 \<and> pu_role m2 \<noteq> ''member''
         \<and> selectMembership (projectUser w2) p adminId = Some t2 \<and> pu_role t2 = ''admin''
         \<and> (2 \<le> admins (getProjectMemberCounts (projectUser w2) p)
             \<or> 1 \<le> owners (getProjectMemberCounts (projectUser w2) p)) \<longrightarrow>
       changeRole c2 adminId Member w2
         = (Inr Success, auth_api (UpdateMemberRole p adminId ''member'') w2)
       \<and> remove_member c2 adminId w2 = (Inr Success, auth_api (RemoveMember p adminId) w2))"
proof -
  have A: "code_of (fst (changeRole c adminId Member w)) \<in> {Some BAD_REQUEST, Some FORBIDDEN}
    \<and> snd (changeRole c adminId Member w) = w"
    using proj none one tgt
    by (auto simp: changeRole_def validateRoleChange_def Let_def split: option.splits)
  have B: "code_of (fst (remove_member c adminId w)) \<in> {Some BAD_REQUEST, Some FORBIDDEN}
    \<and> snd (remove_member c adminId w) = w"
    using proj none one tgt
    by (auto simp: remove_member_def validateMemberRemoval_def Let_def split: option.splits)
  have C: "userId c = Some cu \<and> selectMembership (projectUser w) p cu = Some m
         \<and> pu_role m \<noteq> ''member'' \<longrightarrow>
       code_of (fst (changeRole c adminId Member w)) = Some BAD_REQUEST
       \<and> code_of (fst (remove_member c adminId w)) = Some BAD_REQUEST"
    using proj none one tgt
    by (auto simp: changeRole_def validateRoleChange_def remove_member_def
        validateMemberRemoval_def Let_def)
  have E: "p \<noteq> [] \<and> userId c = Some cu \<and> cu \<noteq> []
         \<and> selectMembership (projectUser w) p cu = Some m \<and> pu_role m \<noteq> ''member'' \<longrightarrow>
       changeRole c adminId Member w
         = (Inl (TRPCError BAD_REQUEST
              ''Cannot demote the last admin when there are no owners.''), w)
       \<and> remove_member c adminId w
         = (Inl (TRPCError BAD_REQUEST
              (if total (getProjectMemberCounts (projectUser w) p) = 1
               then ''Cannot remove the last member of the project''
               else ''Cannot remove the last admin when there are no owners.'')),
            w)"
    using proj none one tgt
    by (simp add: changeRole_def validateRoleChange_def remove_member_def
        validateMemberRemoval_def Let_def)
  have F: "p \<noteq> [] \<and> userId c = Some cu \<and> cu \<noteq> []
         \<and> selectMembership (projectUser w) p cu = Some m \<and> pu_role m = ''member'' \<longrightarrow>
       changeRole c adminId Member w
         = (Inl (TRPCError FORBIDDEN ''You don't have permission to change roles''), w)
       \<and> remove_member c adminId w
         = (Inl (TRPCError FORBIDDEN ''You don't have permission to remove members''), w)"
    using proj
    by (simp add: changeRole_def validateRoleChange_def remove_member_def
        validateMemberRemoval_def)
  have G: "p \<noteq> [] \<and> userId c = Some cu \<and> cu \<noteq> []
         \<and> selectMembership (projectUser w) p cu = None \<longrightarrow>
       changeRole c adminId Member w
         = (Inl (TRPCError FORBIDDEN ''You are not a member of this project''), w)
       \<and> remove_member c adminId w
         = (Inl (TRPCError FORBIDDEN ''You are not a member of this project''), w)"
    using proj
    by (simp add: changeRole_def validateRoleChange_def remove_member_def
        validateMemberRemoval_def)
  have H: "p = [] \<or> \<not> truthy (userId c) \<longrightarrow>
       changeRole c adminId Member w
         = (Inl (TRPCError BAD_REQUEST ''No active project or user''), w)
       \<and> remove_member c adminId w
         = (Inl (TRPCError BAD_REQUEST ''No active project or user''), w)"
    using proj
    by (auto simp: changeRole_def remove_member_def)
  have D: "changeRole c2 adminId Member w2
         = (Inr Success, auth_api (UpdateMemberRole p adminId ''member'') w2)
       \<and> remove_member c2 adminId w2 = (Inr Success, auth_api (RemoveMember p adminId) w2)"
    if h: "p \<noteq> []" "activeProjectId c2 = Some p" "userId c2 = Some cu2" "cu2 \<noteq> []"
      "selectMembership (projectUser w2) p cu2 = Some m2" "pu_role m2 \<noteq> ''member''"
      "selectMembership (projectUser w2) p adminId = Some t2" "pu_role t2 = ''admin''"
      "2 \<le> admins (getProjectMemberCounts (projectUser w2) p)
         \<or> 1 \<le> owners (getProjectMemberCounts (projectUser w2) p)"
  proof -
    have pos: "0 < admins (getProjectMemberCounts (projectUser w2) p)"
      using h(7,8) by (rule admins_pos)
    have le: "owners (getProjectMemberCounts (projectUser w2) p)
              + admins (getProjectMemberCounts (projectUser w2) p)
              \<le> total (getProjectMemberCounts (projectUser w2) p)"
      by (rule owners_admins_le_total)
    from pos le h(9) have tot: "total (getProjectMemberCounts (projectUser w2) p) \<noteq> 1"
      by arith
    from pos h(9) have nd: "\<not> (admins (getProjectMemberCounts (projectUser w2) p) = 1
        \<and> owners (getProjectMemberCounts (projectUser w2) p) = 0)"
      by arith
    show ?thesis
      using h(1-8) tot nd
      by (auto simp: changeRole_def validateRoleChange_def remove_member_def
          validateMemberRemoval_def Let_def)
  qed
  from D have D': "p \<noteq> [] \<and> activeProjectId c2 = Some p \<and> userId c2 = Some cu2 \<and> cu2 \<noteq> []
         \<and> selectMembership (projectUser w2) p cu2 = Some m2 \<and> pu_role m2 \<noteq> ''member''
         \<and> selectMembership (projectUser w2) p adminId = Some t2 \<and> pu_role t2 = ''admin''
         \<and> (2 \<le> admins (getProjectMemberCounts (projectUser w2) p)
             \<or> 1 \<le> owners (getProjectMemberCounts (projectUser w2) p)) \<longrightarrow>
       changeRole c2 adminId Member w2
         = (Inr Success, auth_api (UpdateMemberRole p adminId ''member'') w2)
       \<and> remove_member c2 adminId w2 = (Inr Success, auth_api (RemoveMember p adminId) w2)"
    by blast
  from A B C E F G H D' show ?thesis by blast
qed

theorem C2_sole_admin_guard_witness:
  "code_of (fst (changeRole (ex_ctx ''p2'' ''carol'' ''admin'') ''carol'' Member ex_world))
     = Some BAD_REQUEST
   \<and> snd (changeRole (ex_ctx ''p2'' ''carol'' ''admin'') ''carol'' Member ex_world) = ex_world
   \<and> code_of (fst (remove_member (ex_ctx ''p2'' ''carol'' ''admin'') ''carol'' ex_world))
     = Some BAD_REQUEST
   \<and> snd (remove_member (ex_ctx ''p2'' ''carol'' ''admin'') ''carol'' ex_world) = ex_world
   \<and> changeRole (ex_ctx ''p2'' ''dave'' ''admin'') ''carol'' Member ex_world_two_admins
     = (Inr Success,
        auth_api (UpdateMemberRole ''p2'' ''carol'' ''member'') ex_world_two_admins)
   \<and> remove_member (ex_ctx ''p2'' ''dave'' ''admin'') ''carol'' ex_world_two_admins
     = (Inr Success, auth_api (RemoveMember ''p2'' ''carol'') ex_world_two_admins)
   \<and> remove_member (ex_ctx ''p2'' ''ghost'' ''admin'') ''carol'' ex_world
     = (Inl (TRPCError FORBIDDEN ''You are not a member of this project''), ex_world)"
proof -
  let ?c = "ex_ctx ''p2'' ''carol'' ''admin''"
  let ?d = "ex_ctx ''p2'' ''dave'' ''admin''"
  have h: "activeProjectId ?c = Some ''p2''"
    "owners (getProjectMemberCounts (projectUser ex_world) ''p2'') = 0"
    "admins (getProjectMemberCounts (projectUser ex_world) ''p2'') = 1"
    "selectMembership (projectUser ex_world) ''p2'' ''carol''
       = Some (row ''p2'' ''carol'' ''admin'')"
    "pu_role (row ''p2'' ''carol'' ''admin'') = ''admin''"
    by (simp_all add: ex_ctx_simps ex_counts ex_select row_simps)
  have k: "userId ?c = Some ''carol''" "pu_role (row ''p2'' ''carol'' ''admin'') \<noteq> ''member''"
    "''p2'' \<noteq> []" "activeProjectId ?d = Some ''p2''" "userId ?d = Some ''dave''"
    "''dave'' \<noteq> []" "pu_role (row ''p2'' ''dave'' ''admin'') \<noteq> ''member''"
    by (simp_all add: ex_ctx_simps row_simps)
  have two: "selectMembership (projectUser ex_world_two_admins) ''p2'' ''dave''
               = Some (row ''p2'' ''dave'' ''admin'')"
    "selectMembership (projectUser ex_world_two_admins) ''p2'' ''carol''
               = Some (row ''p2'' ''carol'' ''admin'')"
    "2 \<le> admins (getProjectMemberCounts (projectUser ex_world_two_admins) ''p2'')"
    by (simp_all add: selectMembership_def getProjectMemberCounts_def
        ex_world_two_admins_def row_def)
  note th = C2_sole_admin_guard
    [OF h, where cu = "''carol''" and m = "row ''p2'' ''carol'' ''admin''"
      and ?c2.0 = ?d and ?cu2.0 = "''dave''" and ?w2.0 = ex_world_two_admins
      and ?m2.0 = "row ''p2'' ''dave'' ''admin''" and ?t2.0 = "row ''p2'' ''carol'' ''admin''"]
  have hd: "activeProjectId (ex_ctx ''p2'' ''ghost'' ''admin'') = Some ''p2''"
    by (simp add: ex_ctx_simps)
  have kd: "userId (ex_ctx ''p2'' ''ghost'' ''admin'') = Some ''ghost''" "''ghost'' \<noteq> []"
    "selectMembership (projectUser ex_world) ''p2'' ''ghost'' = None"
    by (simp_all add: ex_ctx_simps selectMembership_def ex_world_def row_def)
  note tg = C2_sole_admin_guard [OF hd h(2-5), where cu = "''ghost''"]
  from tg k kd have "remove_member (ex_ctx ''p2'' ''ghost'' ''admin'') ''carol'' ex_world
     = (Inl (TRPCError FORBIDDEN ''You are not a member of this project''), ex_world)"
    by simp
  with th h(4,5) k two show ?thesis
    by (simp del: auth_api.simps)
qed

text \<open>The claim as stated fails for a caller with role member: dave, a plain
  member of \<open>p2\<close>, is refused with FORBIDDEN, not BAD_REQUEST, when he tries to
  demote or remove carol, the only admin of a project without owner.\<close>

theorem C2_member_caller_counterexample:
  "getProjectMemberCounts (projectUser ex_world) ''p2'' = \<lparr> total = 2, owners = 0, admins = 1 \<rparr>
   \<and> selectMembership (projectUser ex_world) ''p2'' ''carol''
       = Some (row ''p2'' ''carol'' ''admin'')
   \<and> changeRole (ex_ctx ''p2'' ''dave'' ''member'') ''carol'' Member ex_world
       = (Inl (TRPCError FORBIDDEN ''You don't have permission to change roles''), ex_world)
   \<and> remove_member (ex_ctx ''p2'' ''dave'' ''member'') ''carol'' ex_world
       = (Inl (TRPCError FORBIDDEN ''You don't have permission to remove members''), ex_world)"
  by (simp add: changeRole_def remove_member_def validateRoleChange_def
      validateMemberRemoval_def ex_ctx_simps ex_counts ex_select row_simps)

text \<open>
  C5 (as amended). With an active project and a signed-in caller: a caller
  whose role is admin gets FORBIDDEN from invite with role owner when the email
  passes the email check of the input schema, and from changeRole with role
  owner on a target who is a member of the project; a target who is not a
  member of the project gives NOT_FOUND instead, and an invite whose email
  fails the check gives BAD_REQUEST, whatever the caller's role. A caller
  whose role is owner succeeds with invite with role owner and an email that
  passes the check, and with changeRole with role owner on every target who
  is a member of the project.
\<close>

theorem C5_owner_grant:
  assumes "activeProjectId c = Some p" "p \<noteq> []" "userId c = Some u" "u \<noteq> []"
  shows "(zodEmail email = None \<and> projectUserRole c = Some ''admin'' \<longrightarrow>
       invite zodEmail c email Owner w
         = (Inl (TRPCError FORBIDDEN ''Only owners can invite other owners''), w))
    \<and> (zodEmail email = Some msg \<longrightarrow>
       invite zodEmail c email Owner w = (Inl (TRPCError BAD_REQUEST msg), w))
    \<and> (selectMembership (projectUser w) p u = Some m \<and> pu_role m = ''admin''
         \<and> selectMembership (projectUser w) p uid = Some t \<longrightarrow>
       changeRole c uid Owner w
         = (Inl (TRPCError FORBIDDEN ''Only owners can promote members to owner role''), w))
    \<and> (selectMembership (projectUser w) p u = Some m \<and> pu_role m = ''admin''
         \<and> selectMembership (projectUser w) p uid = None \<longrightarrow>
       changeRole c uid Owner w
         = (Inl (TRPCError NOT_FOUND ''User is not a member of this project''), w))
    \<and> (zodEmail email = None \<and> projectUserRole c = Some ''owner'' \<longrightarrow>
       invite zodEmail c email Owner w
         = (Inr (Id (CreateInvitation (Some p) email ''owner'' False)),
            auth_api (CreateInvitation (Some p) email ''owner'' False) w))
    \<and> (selectMembership (projectUser w) p u = Some m \<and> pu_role m = ''owner''
         \<and> selectMembership (projectUser w) p uid = Some t \<longrightarrow>
       changeRole c uid Owner w
         = (Inr Success, auth_api (UpdateMemberRole p uid ''owner'') w))"
proof -
  have A: "zodEmail email = None \<and> projectUserRole c = Some ''admin'' \<longrightarrow>
       invite zodEmail c email Owner w
         = (Inl (TRPCError FORBIDDEN ''Only owners can invite other owners''), w)"
    using assms by (simp add: invite_def)
  have A': "zodEmail email = Some msg \<longrightarrow>
       invite zodEmail c email Owner w = (Inl (TRPCError BAD_REQUEST msg), w)"
    by (simp add: invite_def)
  have B: "selectMembership (projectUser w) p u = Some m \<and> pu_role m = ''admin''
         \<and> selectMembership (projectUser w) p uid = Some t \<longrightarrow>
       changeRole c uid Owner w
         = (Inl (TRPCError FORBIDDEN ''Only owners can promote members to owner role''), w)"
    using assms by (simp add: changeRole_def validateRoleChange_def Let_def)
  have C: "selectMembership (projectUser w) p u = Some m \<and> pu_role m = ''admin''
         \<and> selectMembership (projectUser w) p uid = None \<longrightarrow>
       changeRole c uid Owner w
         = (Inl (TRPCError NOT_FOUND ''User is not a member of this project''), w)"
    using assms by (simp add: changeRole_def validateRoleChange_def)
  have D: "zodEmail email = None \<and> projectUserRole c = Some ''owner'' \<longrightarrow>
       invite zodEmail c email Owner w
         = (Inr (Id (CreateInvitation (Some p) email ''owner'' False)),
            auth_api (CreateInvitation (Some p) email ''owner'' False) w)"
    using assms by (simp add: invite_def Let_def del: auth_api.simps)
  have E: "selectMembership (projectUser w) p u = Some m \<and> pu_role m = ''owner''
         \<and> selectMembership (projectUser w) p uid = Some t \<longrightarrow>
       changeRole c uid Owner w
         = (Inr Success, auth_api (UpdateMemberRole p uid ''owner'') w)"
    using assms by (simp add: changeRole_def validateRoleChange_def Let_def del: auth_api.simps)
  from A A' B C D E show ?thesis by blast
qed

theorem C5_owner_grant_witness:
  "invite ex_zodEmail (ex_ctx ''p2'' ''carol'' ''admin'') ''zoe@example.com'' Owner ex_world
     = (Inl (TRPCError FORBIDDEN ''Only owners can invite other owners''), ex_world)
   \<and> changeRole (ex_ctx ''p2'' ''carol'' ''admin'') ''dave'' Owner ex_world
     = (Inl (TRPCError FORBIDDEN ''Only owners can promote members to owner role''), ex_world)
   \<and> invite ex_zodEmail (ex_ctx ''p1'' ''alice'' ''owner'') ''zoe@example.com'' Owner ex_world
     = (Inr (Id (CreateInvitation (Some ''p1'') ''zoe@example.com'' ''owner'' False)),
        auth_api (CreateInvitation (Some ''p1'') ''zoe@example.com'' ''owner'' False) ex_world)
   \<and> changeRole (ex_ctx ''p1'' ''alice'' ''owner'') ''bob'' Owner ex_world
     = (Inr Success, auth_api (UpdateMemberRole ''p1'' ''bob'' ''owner'') ex_world)
   \<and> invite ex_zodEmail (ex_ctx ''p1'' ''alice'' ''owner'') ''not-an-email'' Owner ex_world
     = (Inl (TRPCError BAD_REQUEST ''Invalid email''), ex_world)"
proof -
  let ?c = "ex_ctx ''p2'' ''carol'' ''admin''"
  let ?a = "ex_ctx ''p1'' ''alice'' ''owner''"
  have hc: "activeProjectId ?c = Some ''p2''" "''p2'' \<noteq> []" "userId ?c = Some ''carol''"
    "''carol'' \<noteq> []"
    by (simp_all add: ex_ctx_simps)
  have ha: "activeProjectId ?a = Some ''p1''" "''p1'' \<noteq> []" "userId ?a = Some ''alice''"
    "''alice'' \<noteq> []"
    by (simp_all add: ex_ctx_simps)
  have k: "projectUserRole ?c = Some ''admin''" "projectUserRole ?a = Some ''owner''"
    "pu_role (row ''p2'' ''carol'' ''admin'') = ''admin''"
    "pu_role (row ''p1'' ''alice'' ''owner'') = ''owner''"
    by (simp_all add: ex_ctx_simps row_simps)
  note tc = C5_owner_grant
    [OF hc, where zodEmail = ex_zodEmail and email = "''zoe@example.com''" and w = ex_world
      and m = "row ''p2'' ''carol'' ''admin''" and uid = "''dave''"
      and t = "row ''p2'' ''dave'' ''member''"]
  note ta = C5_owner_grant
    [OF ha, where zodEmail = ex_zodEmail and email = "''zoe@example.com''" and w = ex_world
      and m = "row ''p1'' ''alice'' ''owner''" and uid = "''bob''"
      and t = "row ''p1'' ''bob'' ''member''"]
  note tn = C5_owner_grant
    [OF ha, where zodEmail = ex_zodEmail and email = "''not-an-email''" and w = ex_world
      and msg = "''Invalid email''", THEN conjunct2, THEN conjunct1]
  from tc ta tn k ex_select ex_zodEmail_simps show ?thesis
    by (simp del: auth_api.simps)
qed

text \<open>The claim as stated fails in two ways. When the target is not a member
  of the project, carol, an admin of \<open>p2\<close>, gets NOT_FOUND, not FORBIDDEN, from
  changeRole with role owner. When the email is \<open>not-an-email\<close>, which the
  email check rejects, her invite with role owner gets BAD_REQUEST, not
  FORBIDDEN, and the same invite by alice, the owner of \<open>p1\<close>, does not
  succeed.\<close>

theorem C5_not_forbidden_counterexample:
  "selectMembership (projectUser ex_world) ''p2'' ''carol''
       = Some (row ''p2'' ''carol'' ''admin'')
   \<and> changeRole (ex_ctx ''p2'' ''carol'' ''admin'') ''ghost'' Owner ex_world
       = (Inl (TRPCError NOT_FOUND ''User is not a member of this project''), ex_world)
   \<and> ex_zodEmail ''not-an-email'' \<noteq> None
   \<and> code_of (fst (invite ex_zodEmail (ex_ctx ''p2'' ''carol'' ''admin'') ''not-an-email''
        Owner ex_world)) = Some BAD_REQUEST
   \<and> code_of (fst (invite ex_zodEmail (ex_ctx ''p1'' ''alice'' ''owner'') ''not-an-email''
        Owner ex_world)) = Some BAD_REQUEST"
proof -
  have "selectMembership (projectUser ex_world) ''p2'' ''ghost'' = None"
    by (simp add: selectMembership_def ex_world_def row_def)
  then show ?thesis
    by (simp add: changeRole_def validateRoleChange_def invite_def ex_zodEmail_simps
        ex_ctx_simps ex_select row_simps)
qed

text \<open>
  C6 (as amended). invite, changeRole and remove fail with BAD_REQUEST, before
  any call of the provider, whenever the active project or the caller's
  identity is absent; listMembers fails with BAD_REQUEST whenever the active
  project is absent; changeRole and remove fail with FORBIDDEN whenever the
  caller has no membership in the active project. acceptInvitation asks for
  no project context: it passes the invitation on to the provider. (For an
  invite whose email fails the email check, the BAD_REQUEST is the one of
  input validation.)
\<close>

theorem C6_context_guards:
  "(\<not> truthy (activeProjectId c) \<or> \<not> truthy (userId c) \<longrightarrow>
      code_of (fst (invite zodEmail c email r w)) = Some BAD_REQUEST
      \<and> snd (invite zodEmail c email r w) = w
      \<and> (zodEmail email = None \<longrightarrow>
           invite zodEmail c email r w
             = (Inl (TRPCError BAD_REQUEST ''No active project or user''), w))
      \<and> changeRole c uid r w = (Inl (TRPCError BAD_REQUEST ''No active project or user''), w)
      \<and> remove_member c uid w = (Inl (TRPCError BAD_REQUEST ''No active project or user''), w))
   \<and> (\<not> truthy (activeProjectId c) \<longrightarrow>
      listMembers c w = (Inl (TRPCError BAD_REQUEST ''No active project''), w))
   \<and> (activeProjectId c = Some p \<and> p \<noteq> [] \<and> userId c = Some u \<and> u \<noteq> []
        \<and> selectMembership (projectUser w) p u = None \<longrightarrow>
      changeRole c uid r w
        = (Inl (TRPCError FORBIDDEN ''You are not a member of this project''), w)
      \<and> remove_member c uid w
        = (Inl (TRPCError FORBIDDEN ''You are not a member of this project''), w))
   \<and> acceptInvitation c iid w = (Inr Success, auth_api (AcceptInvitation iid) w)"
proof -
  have A: "\<not> truthy (activeProjectId c) \<or> \<not> truthy (userId c) \<longrightarrow>
      code_of (fst (invite zodEmail c email r w)) = Some BAD_REQUEST
      \<and> snd (invite zodEmail c email r w) = w
      \<and> (zodEmail email = None \<longrightarrow>
           invite zodEmail c email r w
             = (Inl (TRPCError BAD_REQUEST ''No active project or user''), w))
      \<and> changeRole c uid r w = (Inl (TRPCError BAD_REQUEST ''No active project or user''), w)
      \<and> remove_member c uid w = (Inl (TRPCError BAD_REQUEST ''No active project or user''), w)"
    by (cases "zodEmail email") (simp_all add: invite_def changeRole_def remove_member_def)
  have B: "\<not> truthy (activeProjectId c) \<longrightarrow>
      listMembers c w = (Inl (TRPCError BAD_REQUEST ''No active project''), w)"
    by (simp add: listMembers_def)
  have C: "activeProjectId c = Some p \<and> p \<noteq> [] \<and> userId c = Some u \<and> u \<noteq> []
        \<and> selectMembership (projectUser w) p u = None \<longrightarrow>
      changeRole c uid r w
        = (Inl (TRPCError FORBIDDEN ''You are not a member of this project''), w)
      \<and> remove_member c uid w
        = (Inl (TRPCError FORBIDDEN ''You are not a member of this project''), w)"
    by (simp add: changeRole_def remove_member_def validateRoleChange_def
        validateMemberRemoval_def)
  have D: "acceptInvitation c iid w = (Inr Success, auth_api (AcceptInvitation iid) w)"
    by (simp add: acceptInvitation_def)
  from A B C D show ?thesis by blast
qed

theorem C6_context_guards_witness:
  "invite ex_zodEmail no_project_ctx ''zoe@example.com'' Member ex_world
     = (Inl (TRPCError BAD_REQUEST ''No active project or user''), ex_world)
   \<and> code_of (fst (invite ex_zodEmail no_project_ctx ''not-an-email'' Member ex_world))
     = Some BAD_REQUEST
   \<and> snd (invite ex_zodEmail no_project_ctx ''not-an-email'' Member ex_world) = ex_world
   \<and> changeRole no_project_ctx ''bob'' Admin ex_world
     = (Inl (TRPCError BAD_REQUEST ''No active project or user''), ex_world)
   \<and> remove_member no_project_ctx ''bob'' ex_world
     = (Inl (TRPCError BAD_REQUEST ''No active project or user''), ex_world)
   \<and> listMembers no_project_ctx ex_world
     = (Inl (TRPCError BAD_REQUEST ''No active project''), ex_world)
   \<and> changeRole (ex_ctx ''p1'' ''ghost'' ''admin'') ''bob'' Admin ex_world
     = (Inl (TRPCError FORBIDDEN ''You are not a member of this project''), ex_world)
   \<and> remove_member (ex_ctx ''p1'' ''ghost'' ''admin'') ''bob'' ex_world
     = (Inl (TRPCError FORBIDDEN ''You are not a member of this project''), ex_world)"
proof -
  have n: "\<not> truthy (activeProjectId no_project_ctx)"
    by (simp add: no_project_ctx_def)
  have g: "activeProjectId (ex_ctx ''p1'' ''ghost'' ''admin'') = Some ''p1''" "''p1'' \<noteq> []"
    "userId (ex_ctx ''p1'' ''ghost'' ''admin'') = Some ''ghost''" "''ghost'' \<noteq> []"
    "selectMembership (projectUser ex_world) ''p1'' ''ghost'' = None"
    by (simp_all add: ex_ctx_simps ex_select)
  note a = C6_context_guards
    [where zodEmail = ex_zodEmail and c = no_project_ctx and email = "''zoe@example.com''"
      and r = Member and w = ex_world and uid = "''bob''"]
  note a2 = C6_context_guards
    [where zodEmail = ex_zodEmail and c = no_project_ctx and email = "''not-an-email''"
      and r = Member and w = ex_world and uid = "''bob''"]
  note b = C6_context_guards
    [where c = no_project_ctx and r = Admin and w = ex_world and uid = "''bob''"]
  note c = C6_context_guards
    [where c = "ex_ctx ''p1'' ''ghost'' ''admin''" and r = Admin and w = ex_world
      and uid = "''bob''" and p = "''p1''" and u = "''ghost''"]
  from a a2 b c n g ex_zodEmail_simps show ?thesis
    by (simp del: auth_api.simps)
qed

text \<open>The claim as stated fails: for a signed-in user with no active project
  and no resolved role, acceptInvitation, cancelInvitation and resendInvitation
  succeed and call the provider, and listInvitations throws a plain error that
  carries neither BAD_REQUEST nor FORBIDDEN.\<close>

theorem C6_no_project_counterexample:
  "acceptInvitation no_project_ctx ''inv1'' ex_world
     = (Inr Success, ex_world\<lparr> authCalls := [AcceptInvitation ''inv1''] \<rparr>)
   \<and> cancelInvitation no_project_ctx ''inv1'' ex_world
     = (Inr Success, ex_world\<lparr> authCalls := [CancelInvitation ''inv1''] \<rparr>)
   \<and> resendInvitation no_project_ctx ''zoe@example.com'' Member ex_world
     = (Inr (Id (CreateInvitation None ''zoe@example.com'' ''member'' True)),
        ex_world\<lparr> authCalls := [CreateInvitation None ''zoe@example.com'' ''member'' True] \<rparr>)
   \<and> listInvitations no_project_ctx ex_world = (Inl (Error ''No active project''), ex_world)
   \<and> code_of (fst (listInvitations no_project_ctx ex_world)) = None"
  by (simp add: acceptInvitation_def cancelInvitation_def resendInvitation_def
      listInvitations_def no_project_ctx_def ex_world_def Let_def)

end
